theory Spec2Isabelle
  imports Complex_Main "HOL-Library.Sublist"
begin

section \<open>Indentation markers: data model\<close>

text \<open>
  An entry of the indentation map (\<open>IndentEntry\<close>): the nesting level of a line and,
  when the line lies in the active block, the level of that block. TypeScript's
  \<open>active?: number\<close> is an option; the numbers are whole and are modelled as \<open>int\<close>.
\<close>

record IndentEntry =
  level :: int
  active :: "int option"

text \<open>
  One call of \<open>createGradient\<close> draws one layer: the colour property it uses, the column
  it starts at (\<open>startOffset\<close>) and the number of columns it spans (\<open>columns\<close>).
\<close>

datatype color_role = Normal | Active

record Layer =
  colorRole :: color_role
  columnStart :: int
  columnCount :: int

definition markerCssProperty :: "color_role \<Rightarrow> string" where
  "markerCssProperty r =
     (case r of Normal \<Rightarrow> ''--indent-marker-bg-color''
              | Active \<Rightarrow> ''--indent-marker-active-bg-color'')"

section \<open>Numbers in template strings\<close>

text \<open>
  A template literal \<open>${n}\<close> writes a whole number in decimal, with a leading minus sign
  when it is negative.
\<close>

fun digits :: "nat \<Rightarrow> string" where
  "digits n =
     (if n < 10 then [''0123456789'' ! n]
      else digits (n div 10) @ [''0123456789'' ! (n mod 10)])"

declare digits.simps [simp del]

definition numberToString :: "int \<Rightarrow> string" where
  "numberToString i =
     (if i < 0 then CHR ''-'' # digits (nat (- i)) else digits (nat i))"

text \<open>\<open>Array.prototype.join\<close>: the elements separated by \<open>sep\<close>; the empty array gives the empty string.\<close>

fun join :: "string \<Rightarrow> string list \<Rightarrow> string" where
  "join sep [] = []"
| "join sep [x] = x"
| "join sep (x # y # ys) = x @ sep @ join sep (y # ys)"

section \<open>The pattern composer\<close>

definition createGradient :: "string \<Rightarrow> int \<Rightarrow> string \<Rightarrow> int \<Rightarrow> int \<Rightarrow> string" where
  "createGradient markerCssProperty' thickness indentWidth startOffset columns =
     (let gradient =
            ''repeating-linear-gradient(to right, var('' @ markerCssProperty' @ '') 0 ''
            @ numberToString thickness @ ''px, transparent '' @ numberToString thickness
            @ ''px '' @ indentWidth @ '')''
      in gradient @ '' calc('' @ numberToString startOffset @ '' * '' @ indentWidth
         @ '' + .5ch)/calc('' @ indentWidth @ '' * '' @ numberToString columns
         @ '' - 1px) no-repeat'')"

text \<open>
  \<open>makeBackgroundCSS\<close>, as the source writes it: the early return, then the pushes onto
  \<open>backgrounds\<close> in order, then the join.
\<close>

definition makeBackgroundCSS :: "IndentEntry \<Rightarrow> string \<Rightarrow> bool \<Rightarrow> int \<Rightarrow> string" where
  "makeBackgroundCSS entry indentWidth hideFirstIndent thickness =
     (if hideFirstIndent \<and> level entry = 0 then ''''
      else
        let startAt = (if hideFirstIndent then 1 else 0);
            backgrounds =
              (case active entry of
                 Some a \<Rightarrow>
                   let markersBeforeActive = a - startAt - 1;
                       b1 = (if markersBeforeActive > 0
                             then [createGradient ''--indent-marker-bg-color'' thickness
                                     indentWidth startAt markersBeforeActive]
                             else []);
                       b2 = b1 @ [createGradient ''--indent-marker-active-bg-color'' thickness
                                    indentWidth (a - 1) 1]
                   in (if a \<noteq> level entry
                       then b2 @ [createGradient ''--indent-marker-bg-color'' thickness
                                    indentWidth a (level entry - a)]
                       else b2)
               | None \<Rightarrow>
                   [createGradient ''--indent-marker-bg-color'' thickness indentWidth
                      startAt (level entry - startAt)])
        in join '','' backgrounds)"

text \<open>
  The same function with each \<open>createGradient\<close> call kept as the layer it draws, before
  it is written out as CSS: the ordered layer list of the pattern.
\<close>

definition compose :: "IndentEntry \<Rightarrow> bool \<Rightarrow> Layer list" where
  "compose entry hideFirstIndent =
     (if hideFirstIndent \<and> level entry = 0 then []
      else
        let startAt = (if hideFirstIndent then 1 else 0)
        in (case active entry of
              Some a \<Rightarrow>
                let markersBeforeActive = a - startAt - 1;
                    b1 = (if markersBeforeActive > 0
                          then [\<lparr>colorRole = Normal, columnStart = startAt,
                                  columnCount = markersBeforeActive\<rparr>]
                          else []);
                    b2 = b1 @ [\<lparr>colorRole = Active, columnStart = a - 1, columnCount = 1\<rparr>]
                in (if a \<noteq> level entry
                    then b2 @ [\<lparr>colorRole = Normal, columnStart = a,
                                 columnCount = level entry - a\<rparr>]
                    else b2)
            | None \<Rightarrow>
                [\<lparr>colorRole = Normal, columnStart = startAt,
                  columnCount = level entry - startAt\<rparr>]))"

definition layerCSS :: "int \<Rightarrow> string \<Rightarrow> Layer \<Rightarrow> string" where
  "layerCSS thickness indentWidth l =
     createGradient (markerCssProperty (colorRole l)) thickness indentWidth
       (columnStart l) (columnCount l)"

text \<open>The columns a layer covers: \<open>columnCount\<close> columns from \<open>columnStart\<close> on.\<close>

definition columnsOf :: "Layer \<Rightarrow> int set" where
  "columnsOf l = {columnStart l ..< columnStart l + columnCount l}"

fun disjointLayers :: "Layer list \<Rightarrow> bool" where
  "disjointLayers [] = True"
| "disjointLayers (l # ls) =
     (list_all (\<lambda>m. columnsOf l \<inter> columnsOf m = {}) ls \<and> disjointLayers ls)"

definition coveredColumns :: "Layer list \<Rightarrow> int set" where
  "coveredColumns ls = \<Union> (set (map columnsOf ls))"

text \<open>The first column \<open>makeBackgroundCSS\<close> draws normal markers from.\<close>

definition startAtOf :: "bool \<Rightarrow> int" where
  "startAtOf hide = (if hide then 1 else 0)"

text \<open>
  The entries the indentation map is meant to hold: a level that is not negative and an
  active level, when there is one, between 1 and the level.
\<close>

definition validEntry :: "IndentEntry \<Rightarrow> bool" where
  "validEntry e =
     (0 \<le> level e \<and> (case active e of None \<Rightarrow> True | Some a \<Rightarrow> 1 \<le> a \<and> a \<le> level e))"

section \<open>The editor, as the plugin sees it\<close>

text \<open>
  A document line (\<open>Line\<close> of the editor's state package): its 1-based number, the
  position of its first character and its text.
\<close>

record Line =
  lineNumber :: int
  lineFrom :: int
  lineText :: string

text \<open>
  Modelled from the spec: the configuration module is not among the sources; the marker
  scope mode is an enumeration of two policies for blank lines, thickness is in pixels.
\<close>

datatype marker_type = FullScope | CodeOnly

record IndentationMarkerConfiguration =
  highlightActiveBlock :: bool
  hideFirstIndent :: bool
  markerType :: marker_type
  thickness :: int

text \<open>
  What the plugin reads from an \<open>EditorState\<close>: the \<open>indentUnit\<close> facet (a string), the
  value of \<open>getIndentUnit\<close> (its width in columns), the number of the line
  \<open>getCurrentLine\<close> returns, and the \<open>indentationMarkerConfig\<close> facet.
\<close>

record EditorState =
  indentUnit :: string
  indentUnitWidth :: int
  currentLine :: int
  config :: IndentationMarkerConfiguration

text \<open>
  \<open>coordsAtPos\<close> returns a rectangle or null; the plugin reads only its left edge, here in
  whole pixels.
\<close>

record Rect =
  left :: int

text \<open>
  The closures handed to \<open>requestMeasure\<close> capture the visible lines, the indentation
  map and two configuration values of the call of \<open>generate\<close> that made them.
\<close>

record MeasureRequest =
  reqLines :: "Line list"
  reqMap :: "int \<rightharpoonup> IndentEntry"
  reqHideFirstIndent :: bool
  reqThickness :: int

text \<open>
  A line decoration as \<open>addBackground\<close> adds it: a range, a class and a style attribute.
\<close>

record Decoration =
  decoFrom :: int
  decoTo :: int
  decoClass :: string
  decoStyle :: string

text \<open>
  The view: its current state, its layout (\<open>coordsAtPos\<close>), whether it has the focus, the
  measure requests waiting for the next layout pass, and two traces that make reads
  visible: the positions \<open>coordsAtPos\<close> was asked for and the widths written to the console.
\<close>

record EditorView =
  state :: EditorState
  coordsAtPos :: "int \<Rightarrow> Rect option"
  hasFocus :: bool
  measureQueue :: "MeasureRequest list"
  layoutReads :: "int list"
  consoleLog :: "int list"

record IndentMarkersClass =
  view :: EditorView
  decorations :: "Decoration list"
  unitWidth :: int
  currentLineNumber :: int

record ViewUpdate =
  docChanged :: bool
  viewportChanged :: bool
  updState :: EditorState

section \<open>The plugin\<close>

definition addBackground :: "Decoration list \<Rightarrow> Line \<Rightarrow> string \<Rightarrow> Decoration list" where
  "addBackground builder line backgrounds =
     builder @ [\<lparr>decoFrom = lineFrom line, decoTo = lineFrom line,
                 decoClass = ''cm-indent-markers'',
                 decoStyle = ''--indent-markers: '' @ backgrounds\<rparr>]"

text \<open>A call of \<open>this.view.coordsAtPos\<close>: the answer of the layout, and the call recorded.\<close>

definition queryCoords :: "int \<Rightarrow> IndentMarkersClass \<Rightarrow> Rect option \<times> IndentMarkersClass" where
  "queryCoords pos p =
     (coordsAtPos (view p) pos,
      p\<lparr>view := (view p)\<lparr>layoutReads := layoutReads (view p) @ [pos]\<rparr>\<rparr>)"

text \<open>\<open>rect?.left ?? 0\<close>\<close>

definition leftOr0 :: "Rect option \<Rightarrow> int" where
  "leftOr0 r = (case r of None \<Rightarrow> 0 | Some rect \<Rightarrow> left rect)"

text \<open>
  The body of the loop of the \<open>read\<close> callback, for one line: the two \<open>continue\<close>s, the
  width measurement (the minuend is evaluated first), the log and the decoration.
\<close>

definition readLine ::
  "MeasureRequest \<Rightarrow> string \<Rightarrow> Line \<Rightarrow> Decoration list \<times> IndentMarkersClass
     \<Rightarrow> Decoration list \<times> IndentMarkersClass" where
  "readLine req indentUnitString line s =
     (case reqMap req (lineNumber line) of
        None \<Rightarrow> s
      | Some entry \<Rightarrow>
          if level entry = 0 then s
          else if \<not> prefix indentUnitString (lineText line) then s
          else
            let (builder, p) = s;
                (r1, p1) = queryCoords (lineFrom line + int (length indentUnitString)) p;
                (r2, p2) = queryCoords (lineFrom line) p1;
                width = leftOr0 r1 - leftOr0 r2;
                p3 = p2\<lparr>view := (view p2)\<lparr>consoleLog := consoleLog (view p2) @ [width]\<rparr>\<rparr>;
                backgrounds = makeBackgroundCSS entry (numberToString width @ ''px'')
                                (reqHideFirstIndent req) (reqThickness req)
            in (addBackground builder line backgrounds, p3))"

text \<open>The \<open>read\<close> callback: the indent unit string of the view's state, then the loop.\<close>

definition measureRead ::
  "MeasureRequest \<Rightarrow> Decoration list \<times> IndentMarkersClass
     \<Rightarrow> Decoration list \<times> IndentMarkersClass" where
  "measureRead req s =
     (let indentUnitString = indentUnit (state (view (snd s)))
      in fold (readLine req indentUnitString) (reqLines req) s)"

text \<open>The \<open>write\<close> callback: the builder's ranges become the decorations, then \<open>view.focus()\<close>.\<close>

definition measureWrite :: "Decoration list \<Rightarrow> IndentMarkersClass \<Rightarrow> IndentMarkersClass" where
  "measureWrite builder p =
     (let p1 = p\<lparr>decorations := builder\<rparr>
      in p1\<lparr>view := (view p1)\<lparr>hasFocus := True\<rparr>\<rparr>)"

text \<open>
  \<open>generate\<close>: the visible lines, the configuration and the indentation map are computed
  at once; the measuring and the writing are handed to the view with \<open>requestMeasure\<close>.
  \<open>getVisibleLines\<close> and the \<open>IndentationMap\<close> constructor belong to modules that are not
  among the sources and are parameters.
\<close>

definition generate ::
  "(EditorView \<Rightarrow> EditorState \<Rightarrow> Line list)
     \<Rightarrow> (Line list \<Rightarrow> EditorState \<Rightarrow> int \<Rightarrow> marker_type \<Rightarrow> (int \<rightharpoonup> IndentEntry))
     \<Rightarrow> EditorState \<Rightarrow> IndentMarkersClass \<Rightarrow> IndentMarkersClass" where
  "generate getVisibleLines IndentationMap st p =
     (let lines = getVisibleLines (view p) st;
          cfg = config st;
          m = IndentationMap lines st (unitWidth p) (markerType cfg);
          req = \<lparr>reqLines = lines, reqMap = m,
                 reqHideFirstIndent = hideFirstIndent cfg, reqThickness = thickness cfg\<rparr>
      in p\<lparr>view := (view p)\<lparr>measureQueue := measureQueue (view p) @ [req]\<rparr>\<rparr>)"

text \<open>
  One measure request run by the view: \<open>read\<close> with a fresh builder, then \<open>write\<close>.
\<close>

definition runMeasure :: "MeasureRequest \<Rightarrow> IndentMarkersClass \<Rightarrow> IndentMarkersClass" where
  "runMeasure req p = (let (builder, p1) = measureRead req ([], p) in measureWrite builder p1)"

definition update ::
  "(EditorView \<Rightarrow> EditorState \<Rightarrow> Line list)
     \<Rightarrow> (Line list \<Rightarrow> EditorState \<Rightarrow> int \<Rightarrow> marker_type \<Rightarrow> (int \<rightharpoonup> IndentEntry))
     \<Rightarrow> ViewUpdate \<Rightarrow> IndentMarkersClass \<Rightarrow> IndentMarkersClass" where
  "update getVisibleLines IndentationMap upd p =
     (let unitWidth' = indentUnitWidth (updState upd);
          unitWidthChanged = (unitWidth' \<noteq> unitWidth p);
          p1 = (if unitWidthChanged then p\<lparr>unitWidth := unitWidth'\<rparr> else p);
          lineNumber' = currentLine (updState upd);
          lineNumberChanged = (lineNumber' \<noteq> currentLineNumber p1);
          p2 = p1\<lparr>currentLineNumber := lineNumber'\<rparr>;
          activeBlockUpdateRequired =
            (highlightActiveBlock (config (updState upd)) \<and> lineNumberChanged)
      in if docChanged upd \<or> viewportChanged upd \<or> unitWidthChanged
            \<or> activeBlockUpdateRequired
         then generate getVisibleLines IndentationMap (updState upd) p2
         else p2)"

text \<open>The trigger condition of \<open>update\<close>, against the two values the plugin remembers.\<close>

definition regenerationRequired :: "ViewUpdate \<Rightarrow> IndentMarkersClass \<Rightarrow> bool" where
  "regenerationRequired upd p =
     (docChanged upd \<or> viewportChanged upd
      \<or> indentUnitWidth (updState upd) \<noteq> unitWidth p
      \<or> (highlightActiveBlock (config (updState upd))
          \<and> currentLine (updState upd) \<noteq> currentLineNumber p))"

section \<open>The read loop, line by line\<close>

text \<open>
  The width the \<open>read\<close> callback measures for a line, as a function of the layout alone:
  the left edge after one indent unit minus the left edge at the line's start, each 0
  when the layout has no coordinates for the position.
\<close>

definition measuredWidth :: "(int \<Rightarrow> Rect option) \<Rightarrow> string \<Rightarrow> Line \<Rightarrow> int" where
  "measuredWidth coords u line =
     leftOr0 (coords (lineFrom line + int (length u))) - leftOr0 (coords (lineFrom line))"

text \<open>The entry of a line that gets past both \<open>continue\<close>s, if it does.\<close>

definition calibrated :: "MeasureRequest \<Rightarrow> string \<Rightarrow> Line \<Rightarrow> IndentEntry option" where
  "calibrated req u line =
     (case reqMap req (lineNumber line) of
        None \<Rightarrow> None
      | Some e \<Rightarrow> if level e = 0 \<or> \<not> prefix u (lineText line) then None else Some e)"

text \<open>What one line adds to the layout trace, to the console and to the builder.\<close>

definition lineReads :: "MeasureRequest \<Rightarrow> string \<Rightarrow> Line \<Rightarrow> int list" where
  "lineReads req u line =
     (case calibrated req u line of
        None \<Rightarrow> []
      | Some e \<Rightarrow> [lineFrom line + int (length u), lineFrom line])"

definition lineLogs :: "(int \<Rightarrow> Rect option) \<Rightarrow> MeasureRequest \<Rightarrow> string \<Rightarrow> Line \<Rightarrow> int list" where
  "lineLogs coords req u line =
     (case calibrated req u line of
        None \<Rightarrow> []
      | Some e \<Rightarrow> [measuredWidth coords u line])"

definition lineDecorations ::
  "(int \<Rightarrow> Rect option) \<Rightarrow> MeasureRequest \<Rightarrow> string \<Rightarrow> Line \<Rightarrow> Decoration list" where
  "lineDecorations coords req u line =
     (case calibrated req u line of
        None \<Rightarrow> []
      | Some e \<Rightarrow>
          addBackground [] line
            (makeBackgroundCSS e (numberToString (measuredWidth coords u line) @ ''px'')
               (reqHideFirstIndent req) (reqThickness req)))"

text \<open>The plugin with the two traces set to given values, everything else as it is.\<close>

definition withTraces :: "int list \<Rightarrow> int list \<Rightarrow> IndentMarkersClass \<Rightarrow> IndentMarkersClass" where
  "withTraces reads logs p = p\<lparr>view := (view p)\<lparr>layoutReads := reads, consoleLog := logs\<rparr>\<rparr>"

section \<open>The background that \<open>createGradient\<close> writes, as a CSS value\<close>

text \<open>
  The lengths that occur in the string: \<open>0\<close>, a number of pixels, \<open>.5ch\<close>, and the
  products, sums and differences inside \<open>calc(...)\<close>. \<open>printLength\<close> writes a length as
  the template literal does; \<open>evalLength\<close> is its value in pixels under CSS arithmetic,
  given the width of one \<open>ch\<close> in pixels.
\<close>

datatype css_length =
    Zero
  | Px int
  | HalfCh
  | Times int css_length
  | TimesR css_length int
  | Plus css_length css_length
  | Minus css_length css_length

fun printLength :: "css_length \<Rightarrow> string" where
  "printLength Zero = ''0''"
| "printLength (Px n) = numberToString n @ ''px''"
| "printLength HalfCh = ''.5ch''"
| "printLength (Times n l) = numberToString n @ '' * '' @ printLength l"
| "printLength (TimesR l n) = printLength l @ '' * '' @ numberToString n"
| "printLength (Plus a b) = printLength a @ '' + '' @ printLength b"
| "printLength (Minus a b) = printLength a @ '' - '' @ printLength b"

fun evalLength :: "real \<Rightarrow> css_length \<Rightarrow> real" where
  "evalLength ch Zero = 0"
| "evalLength ch (Px n) = of_int n"
| "evalLength ch HalfCh = ch / 2"
| "evalLength ch (Times n l) = of_int n * evalLength ch l"
| "evalLength ch (TimesR l n) = evalLength ch l * of_int n"
| "evalLength ch (Plus a b) = evalLength ch a + evalLength ch b"
| "evalLength ch (Minus a b) = evalLength ch a - evalLength ch b"

text \<open>
  One background layer: a repeating gradient to the right whose stops are the marker
  colour from \<open>stripeFrom\<close> to \<open>stripeTo\<close> and transparent from \<open>stripeTo\<close> to \<open>period\<close>,
  placed at the horizontal \<open>position\<close> with width \<open>size\<close>, not repeated.
\<close>

record Background =
  stripeColor :: string
  stripeFrom :: css_length
  stripeTo :: css_length
  period :: css_length
  position :: css_length
  size :: css_length

definition printBackground :: "Background \<Rightarrow> string" where
  "printBackground bg =
     ''repeating-linear-gradient(to right, var('' @ stripeColor bg @ '') ''
     @ printLength (stripeFrom bg) @ '' '' @ printLength (stripeTo bg)
     @ '', transparent '' @ printLength (stripeTo bg) @ '' '' @ printLength (period bg)
     @ '') calc('' @ printLength (position bg) @ '')/calc('' @ printLength (size bg)
     @ '') no-repeat''"

text \<open>
  The background of \<open>createGradient\<close> for an indent width of \<open>w\<close> pixels, the string
  \<open>${w}px\<close> that \<open>generate\<close> passes.
\<close>

definition gradientSpec :: "string \<Rightarrow> int \<Rightarrow> int \<Rightarrow> int \<Rightarrow> int \<Rightarrow> Background" where
  "gradientSpec prop t w startOffset columns =
     \<lparr>stripeColor = prop, stripeFrom = Zero, stripeTo = Px t, period = Px w,
      position = Plus (Times startOffset (Px w)) HalfCh,
      size = Minus (TimesR (Px w) columns) (Px 1)\<rparr>"

text \<open>
  Where the layer's stripes lie, from the left edge of the line's box: the gradient
  starts at the layer's position and repeats at its period, so the stripe of index \<open>j\<close>
  in the layer starts \<open>j\<close> periods after the position.
\<close>

definition stripeLeft :: "real \<Rightarrow> Background \<Rightarrow> int \<Rightarrow> real" where
  "stripeLeft ch bg j = evalLength ch (position bg) + of_int j * evalLength ch (period bg)"

definition stripeWidth :: "real \<Rightarrow> Background \<Rightarrow> real" where
  "stripeWidth ch bg = evalLength ch (stripeTo bg) - evalLength ch (stripeFrom bg)"

definition spanWidth :: "real \<Rightarrow> Background \<Rightarrow> real" where
  "spanWidth ch bg = evalLength ch (size bg)"

section \<open>Sample inputs\<close>

definition sampleConfig :: IndentationMarkerConfiguration where
  "sampleConfig =
     \<lparr>highlightActiveBlock = True, hideFirstIndent = False, markerType = FullScope,
      thickness = 1\<rparr>"

definition sampleState :: EditorState where
  "sampleState =
     \<lparr>indentUnit = ''  '', indentUnitWidth = 2, currentLine = 1, config = sampleConfig\<rparr>"

text \<open>A layout that knows position 0 only, and one that knows no position.\<close>

definition sampleView :: EditorView where
  "sampleView =
     \<lparr>state = sampleState,
      coordsAtPos = (\<lambda>pos. if pos = 0 then Some \<lparr>left = 10\<rparr> else None),
      hasFocus = False, measureQueue = [], layoutReads = [], consoleLog = []\<rparr>"

definition blankView :: EditorView where
  "blankView = sampleView\<lparr>coordsAtPos := (\<lambda>pos. None)\<rparr>"

definition samplePlugin :: IndentMarkersClass where
  "samplePlugin = \<lparr>view = sampleView, decorations = [], unitWidth = 2, currentLineNumber = 1\<rparr>"

definition sampleLine :: Line where
  "sampleLine = \<lparr>lineNumber = 1, lineFrom = 0, lineText = ''  x''\<rparr>"

text \<open>A line indented with one tab, while the indent unit is two spaces.\<close>

definition tabLine :: Line where
  "tabLine = \<lparr>lineNumber = 1, lineFrom = 0, lineText = [CHR 0x09, CHR ''x'']\<rparr>"

definition sampleRequest :: MeasureRequest where
  "sampleRequest =
     \<lparr>reqLines = [sampleLine], reqMap = [1 \<mapsto> \<lparr>level = 1, active = None\<rparr>],
      reqHideFirstIndent = False, reqThickness = 1\<rparr>"

section \<open>Properties of the pattern composer\<close>

lemma makeBackgroundCSS_compose:
  "makeBackgroundCSS e w hide t = join '','' (map (layerCSS t w) (compose e hide))"
  by (simp add: makeBackgroundCSS_def compose_def layerCSS_def markerCssProperty_def Let_def
      split: option.split)

lemma createGradient_nonempty: "createGradient p t w s c \<noteq> []"
  by (simp add: createGradient_def Let_def)

lemma layerCSS_nonempty: "layerCSS t w l \<noteq> []"
  by (simp add: layerCSS_def createGradient_nonempty)

lemma join_nonempty: "xs \<noteq> [] \<Longrightarrow> hd xs \<noteq> [] \<Longrightarrow> join sep xs \<noteq> []"
  by (induction sep xs rule: join.induct) auto

lemma compose_empty_iff: "(compose e hide = []) = (hide \<and> level e = 0)"
  by (simp add: compose_def Let_def split: option.split)

lemma makeBackgroundCSS_empty_iff:
  "(makeBackgroundCSS e w hide t = []) = (hide \<and> level e = 0)"
proof (cases "compose e hide")
  case Nil
  then show ?thesis
    using compose_empty_iff [of e hide] by (simp add: makeBackgroundCSS_compose)
next
  case (Cons l ls)
  then have "join '','' (map (layerCSS t w) (compose e hide)) \<noteq> []"
    by (intro join_nonempty) (simp_all add: layerCSS_nonempty)
  then show ?thesis
    using Cons compose_empty_iff [of e hide] by (simp add: makeBackgroundCSS_compose)
qed

lemma compose_Some:
  "1 \<le> a \<Longrightarrow> a \<le> lv \<Longrightarrow>
   compose \<lparr>level = lv, active = Some a\<rparr> hide =
     (if 0 < a - startAtOf hide - 1
      then [\<lparr>colorRole = Normal, columnStart = startAtOf hide,
              columnCount = a - startAtOf hide - 1\<rparr>]
      else [])
     @ [\<lparr>colorRole = Active, columnStart = a - 1, columnCount = 1\<rparr>]
     @ (if a < lv
        then [\<lparr>colorRole = Normal, columnStart = a, columnCount = lv - a\<rparr>]
        else [])"
  by (auto simp add: compose_def startAtOf_def Let_def)

text \<open>
  C1. With an active level \<open>a\<close> between 1 and the level, the layers are, in column order:
  a normal layer from \<open>startAt\<close> of \<open>a - startAt - 1\<close> columns when that count is positive,
  the active layer of exactly one column at \<open>a - 1\<close>, and a normal layer from \<open>a\<close> of
  \<open>level - a\<close> columns when \<open>a < level\<close>; the CSS is these layers, joined.
\<close>

theorem compose_active_three_layers:
  assumes "1 \<le> a" and "a \<le> lv"
  shows "compose \<lparr>level = lv, active = Some a\<rparr> hide =
           (if 0 < a - startAtOf hide - 1
            then [\<lparr>colorRole = Normal, columnStart = startAtOf hide,
                    columnCount = a - startAtOf hide - 1\<rparr>]
            else [])
           @ [\<lparr>colorRole = Active, columnStart = a - 1, columnCount = 1\<rparr>]
           @ (if a < lv
              then [\<lparr>colorRole = Normal, columnStart = a, columnCount = lv - a\<rparr>]
              else [])
         \<and> sorted_wrt (<) (map columnStart (compose \<lparr>level = lv, active = Some a\<rparr> hide))
         \<and> makeBackgroundCSS \<lparr>level = lv, active = Some a\<rparr> w hide t =
             join '','' (map (layerCSS t w) (compose \<lparr>level = lv, active = Some a\<rparr> hide))"
proof -
  have "sorted_wrt (<) (map columnStart (compose \<lparr>level = lv, active = Some a\<rparr> hide))"
    using assms by (auto simp add: compose_Some startAtOf_def)
  then show ?thesis
    using assms by (simp add: compose_Some makeBackgroundCSS_compose)
qed

theorem compose_active_three_layers_witness:
  "(1::int) \<le> 2 \<and> (2::int) \<le> 3
   \<and> compose \<lparr>level = 3, active = Some 2\<rparr> False =
       [\<lparr>colorRole = Normal, columnStart = 0, columnCount = 1\<rparr>,
        \<lparr>colorRole = Active, columnStart = 1, columnCount = 1\<rparr>,
        \<lparr>colorRole = Normal, columnStart = 2, columnCount = 1\<rparr>]"
  using compose_active_three_layers [of 2 3 False] by (simp add: startAtOf_def)

text \<open>
  C2, as stated, fails: with the first indent hidden and the active level 1, the active
  layer covers column 0, which lies outside the interval from \<open>startAt = 1\<close>.
\<close>

theorem covered_columns_counterexample:
  "validEntry \<lparr>level = 1, active = Some 1\<rparr>
   \<and> coveredColumns (compose \<lparr>level = 1, active = Some 1\<rparr> True)
       \<noteq> {startAtOf True ..< level \<lparr>level = 1, active = Some 1\<rparr>}"
  by (simp add: validEntry_def compose_def coveredColumns_def columnsOf_def startAtOf_def)

text \<open>
  C2, amended. For every valid entry and either setting, the layers cover pairwise
  disjoint column ranges; their union is the interval from \<open>startAt\<close> to the level, except
  when the first indent is hidden and the active level is 1: then it is the interval
  from 0 to the level.
\<close>

theorem covered_columns_disjoint_union:
  assumes "validEntry e"
  shows "disjointLayers (compose e hide)
         \<and> coveredColumns (compose e hide) =
             (if hide \<and> active e = Some 1 then {0 ..< level e}
              else {startAtOf hide ..< level e})"
  using assms
  by (auto simp add: validEntry_def compose_def startAtOf_def Let_def coveredColumns_def
      columnsOf_def split: option.splits)

theorem covered_columns_disjoint_union_witness:
  "validEntry \<lparr>level = 4, active = Some 2\<rparr>
   \<and> disjointLayers (compose \<lparr>level = 4, active = Some 2\<rparr> True)
   \<and> coveredColumns (compose \<lparr>level = 4, active = Some 2\<rparr> True) = {1 ..< 4}"
  using covered_columns_disjoint_union [of "\<lparr>level = 4, active = Some 2\<rparr>" True]
  by (simp add: validEntry_def startAtOf_def)

text \<open>
  C3, as stated, fails: with no active level, level 0 and the first indent shown, the
  layer list is not empty: it holds one layer of zero columns.
\<close>

theorem compose_inactive_counterexample:
  "compose \<lparr>level = 0, active = None\<rparr> False =
     [\<lparr>colorRole = Normal, columnStart = 0, columnCount = 0\<rparr>]
   \<and> compose \<lparr>level = 0, active = None\<rparr> False \<noteq> []"
  by (simp add: compose_def)

text \<open>
  C3, amended. With no active level, and unless the first indent is hidden at level 0,
  there is exactly one normal layer from \<open>startAt\<close> of \<open>level - startAt\<close> columns, also
  when that count is not positive: the layer is then present and covers no column.
\<close>

theorem compose_inactive_one_layer:
  assumes "active e = None" and "\<not> (hide \<and> level e = 0)"
  shows "compose e hide =
           [\<lparr>colorRole = Normal, columnStart = startAtOf hide,
             columnCount = level e - startAtOf hide\<rparr>]
         \<and> (level e - startAtOf hide \<le> 0 \<longrightarrow> coveredColumns (compose e hide) = {})"
  using assms
  by (auto simp add: compose_def startAtOf_def Let_def coveredColumns_def columnsOf_def)

theorem compose_inactive_one_layer_witness:
  "active \<lparr>level = 1, active = None\<rparr> = None
   \<and> \<not> (True \<and> level \<lparr>level = 1, active = None\<rparr> = 0)
   \<and> compose \<lparr>level = 1, active = None\<rparr> True =
       [\<lparr>colorRole = Normal, columnStart = 1, columnCount = 0\<rparr>]
   \<and> coveredColumns (compose \<lparr>level = 1, active = None\<rparr> True) = {}"
  using compose_inactive_one_layer [of "\<lparr>level = 1, active = None\<rparr>" True]
  by (simp add: startAtOf_def coveredColumns_def columnsOf_def)

text \<open>
  C4. The pattern is empty exactly when the first indent is hidden and the level is 0:
  the layer list is empty then and only then, and so is the CSS string. In every other
  case the layers are those of the algorithm: the single normal layer when there is no
  active level, and otherwise the optional normal layer, the active layer and the
  optional normal layer; the CSS is their gradients, joined.
\<close>

theorem empty_pattern_sole_short_circuit:
  "(compose e hide = []) = (hide \<and> level e = 0)
   \<and> (makeBackgroundCSS e w hide t = []) = (hide \<and> level e = 0)
   \<and> (\<not> (hide \<and> level e = 0) \<longrightarrow>
        compose e hide =
          (case active e of
             None \<Rightarrow>
               [\<lparr>colorRole = Normal, columnStart = startAtOf hide,
                 columnCount = level e - startAtOf hide\<rparr>]
           | Some a \<Rightarrow>
               (if 0 < a - startAtOf hide - 1
                then [\<lparr>colorRole = Normal, columnStart = startAtOf hide,
                        columnCount = a - startAtOf hide - 1\<rparr>]
                else [])
               @ [\<lparr>colorRole = Active, columnStart = a - 1, columnCount = 1\<rparr>]
               @ (if a \<noteq> level e
                  then [\<lparr>colorRole = Normal, columnStart = a, columnCount = level e - a\<rparr>]
                  else []))
        \<and> makeBackgroundCSS e w hide t =
            join '','' (map (layerCSS t w) (compose e hide)))"
proof -
  have "\<not> (hide \<and> level e = 0) \<longrightarrow>
        compose e hide =
          (case active e of
             None \<Rightarrow>
               [\<lparr>colorRole = Normal, columnStart = startAtOf hide,
                 columnCount = level e - startAtOf hide\<rparr>]
           | Some a \<Rightarrow>
               (if 0 < a - startAtOf hide - 1
                then [\<lparr>colorRole = Normal, columnStart = startAtOf hide,
                        columnCount = a - startAtOf hide - 1\<rparr>]
                else [])
               @ [\<lparr>colorRole = Active, columnStart = a - 1, columnCount = 1\<rparr>]
               @ (if a \<noteq> level e
                  then [\<lparr>colorRole = Normal, columnStart = a, columnCount = level e - a\<rparr>]
                  else []))"
    by (auto simp add: compose_def startAtOf_def Let_def split: option.split)
  moreover have "makeBackgroundCSS e w hide t =
      join '','' (map (layerCSS t w) (compose e hide))"
    by (rule makeBackgroundCSS_compose)
  ultimately show ?thesis
    using compose_empty_iff [of e hide] makeBackgroundCSS_empty_iff [of e w hide t]
    by blast
qed

theorem empty_pattern_sole_short_circuit_witness:
  "compose \<lparr>level = 0, active = None\<rparr> True = []
   \<and> makeBackgroundCSS \<lparr>level = 0, active = None\<rparr> ''12px'' True 1 = []
   \<and> \<not> (False \<and> level \<lparr>level = 2, active = Some 1\<rparr> = 0)
   \<and> compose \<lparr>level = 2, active = Some 1\<rparr> False =
       [\<lparr>colorRole = Active, columnStart = 0, columnCount = 1\<rparr>,
        \<lparr>colorRole = Normal, columnStart = 1, columnCount = 1\<rparr>]"
  using empty_pattern_sole_short_circuit [of "\<lparr>level = 0, active = None\<rparr>" True "''12px''" 1]
    empty_pattern_sole_short_circuit [of "\<lparr>level = 2, active = Some 1\<rparr>" False "''12px''" 1]
  by (simp add: startAtOf_def)

text \<open>
  C10. With an active level \<open>a\<close> between 1 and the level, the active layer at column
  \<open>a - 1\<close> is always there and is the only active one, so neither the layer list nor the
  CSS is empty; with the first indent hidden and \<open>a = 1\<close> it is the first layer and
  covers column 0.
\<close>

theorem active_layer_always_emitted:
  assumes "1 \<le> a" and "a \<le> lv"
  shows "\<lparr>colorRole = Active, columnStart = a - 1, columnCount = 1\<rparr>
           \<in> set (compose \<lparr>level = lv, active = Some a\<rparr> hide)
         \<and> filter (\<lambda>l. colorRole l = Active) (compose \<lparr>level = lv, active = Some a\<rparr> hide) =
             [\<lparr>colorRole = Active, columnStart = a - 1, columnCount = 1\<rparr>]
         \<and> compose \<lparr>level = lv, active = Some a\<rparr> hide \<noteq> []
         \<and> makeBackgroundCSS \<lparr>level = lv, active = Some a\<rparr> w hide t \<noteq> []
         \<and> (hide \<and> a = 1 \<longrightarrow>
              hd (compose \<lparr>level = lv, active = Some a\<rparr> hide) =
                \<lparr>colorRole = Active, columnStart = 0, columnCount = 1\<rparr>
              \<and> 0 \<in> coveredColumns (compose \<lparr>level = lv, active = Some a\<rparr> hide))"
proof -
  have "makeBackgroundCSS \<lparr>level = lv, active = Some a\<rparr> w hide t \<noteq> []"
    using assms by (simp add: makeBackgroundCSS_empty_iff)
  then show ?thesis
    using assms
    by (auto simp add: compose_Some startAtOf_def coveredColumns_def columnsOf_def)
qed

theorem active_layer_always_emitted_witness:
  "(1::int) \<le> 1 \<and> (1::int) \<le> 2
   \<and> compose \<lparr>level = 2, active = Some 1\<rparr> True \<noteq> []
   \<and> hd (compose \<lparr>level = 2, active = Some 1\<rparr> True) =
       \<lparr>colorRole = Active, columnStart = 0, columnCount = 1\<rparr>"
  using active_layer_always_emitted [of 1 2 True] by simp

section \<open>Properties of the read loop\<close>

lemma readLine_eq:
  "readLine req u line (b, p) =
     (b @ lineDecorations (coordsAtPos (view p)) req u line,
      withTraces (layoutReads (view p) @ lineReads req u line)
        (consoleLog (view p) @ lineLogs (coordsAtPos (view p)) req u line) p)"
  by (simp add: readLine_def lineDecorations_def lineReads_def lineLogs_def calibrated_def
      withTraces_def queryCoords_def measuredWidth_def addBackground_def Let_def
      split: option.split)

lemma fold_readLine_eq:
  "fold (readLine req u) ls (b, p) =
     (b @ concat (map (lineDecorations (coordsAtPos (view p)) req u) ls),
      withTraces (layoutReads (view p) @ concat (map (lineReads req u) ls))
        (consoleLog (view p) @ concat (map (lineLogs (coordsAtPos (view p)) req u) ls)) p)"
proof (induction ls arbitrary: b p)
  case Nil
  show ?case by (simp add: withTraces_def)
next
  case (Cons line ls)
  show ?case by (simp add: readLine_eq Cons.IH) (simp add: withTraces_def)
qed

lemma measureRead_eq:
  "measureRead req (b, p) =
     (b @ concat (map (lineDecorations (coordsAtPos (view p)) req (indentUnit (state (view p))))
                   (reqLines req)),
      withTraces
        (layoutReads (view p)
           @ concat (map (lineReads req (indentUnit (state (view p)))) (reqLines req)))
        (consoleLog (view p)
           @ concat (map (lineLogs (coordsAtPos (view p)) req (indentUnit (state (view p))))
                      (reqLines req))) p)"
  by (simp add: measureRead_def fold_readLine_eq Let_def)

lemma calibrated_not_prefix: "\<not> prefix u (lineText line) \<Longrightarrow> calibrated req u line = None"
  by (simp add: calibrated_def split: option.split)

lemma lineDecorations_reqLines [simp]:
  "lineDecorations c (req\<lparr>reqLines := ls\<rparr>) u = lineDecorations c req u"
  by (rule ext) (simp add: lineDecorations_def calibrated_def split: option.split)

lemma lineReads_reqLines [simp]:
  "lineReads (req\<lparr>reqLines := ls\<rparr>) u = lineReads req u"
  by (rule ext) (simp add: lineReads_def calibrated_def)

lemma lineLogs_reqLines [simp]:
  "lineLogs c (req\<lparr>reqLines := ls\<rparr>) u = lineLogs c req u"
  by (rule ext) (simp add: lineLogs_def calibrated_def)

section \<open>Properties of the plugin\<close>

text \<open>
  C5. An update hands a new measure request to the view exactly when the document
  changed, or the viewport changed, or the indent unit width differs from the remembered
  one, or active block highlighting is on and the cursor line differs from the
  remembered one. Otherwise it only remembers the cursor line: no request, and the
  decorations are those of before (an update never writes them itself).
\<close>

theorem update_regenerates_iff:
  "update gv im upd p =
     (if regenerationRequired upd p
      then generate gv im (updState upd)
             (p\<lparr>unitWidth := indentUnitWidth (updState upd),
                currentLineNumber := currentLine (updState upd)\<rparr>)
      else p\<lparr>currentLineNumber := currentLine (updState upd)\<rparr>)
   \<and> (measureQueue (view (update gv im upd p)) \<noteq> measureQueue (view p))
       = regenerationRequired upd p
   \<and> decorations (update gv im upd p) = decorations p"
  by (auto simp add: update_def regenerationRequired_def generate_def Let_def)

theorem update_regenerates_iff_witness:
  "regenerationRequired
     \<lparr>docChanged = False, viewportChanged = False,
      updState = sampleState\<lparr>currentLine := 2\<rparr>\<rparr> samplePlugin
   \<and> length (measureQueue (view (update (\<lambda>v s. []) (\<lambda>ls s w m. Map.empty)
         \<lparr>docChanged = False, viewportChanged = False,
          updState = sampleState\<lparr>currentLine := 2\<rparr>\<rparr> samplePlugin))) = 1
   \<and> \<not> regenerationRequired
         \<lparr>docChanged = False, viewportChanged = False, updState = sampleState\<rparr> samplePlugin
   \<and> update (\<lambda>v s. []) (\<lambda>ls s w m. Map.empty)
         \<lparr>docChanged = False, viewportChanged = False, updState = sampleState\<rparr> samplePlugin
       = samplePlugin"
  using update_regenerates_iff [of "\<lambda>v s. []" "\<lambda>ls s w m. Map.empty"
      "\<lparr>docChanged = False, viewportChanged = False,
        updState = sampleState\<lparr>currentLine := 2\<rparr>\<rparr>" samplePlugin]
    update_regenerates_iff [of "\<lambda>v s. []" "\<lambda>ls s w m. Map.empty"
      "\<lparr>docChanged = False, viewportChanged = False, updState = sampleState\<rparr>" samplePlugin]
  by (simp add: regenerationRequired_def samplePlugin_def sampleState_def sampleConfig_def
      sampleView_def generate_def)

text \<open>
  C6. A line whose text does not start with the indent unit string of the view's state
  goes through the loop body without any effect: no layout read, no log, no decoration.
  The read phase and the whole measure cycle give the same result as for the visible
  lines without that line, so the decorations written hold nothing for it.
\<close>

theorem unit_mismatch_line_skipped:
  assumes "\<not> prefix (indentUnit (state (view p))) (lineText line)"
  shows "readLine req (indentUnit (state (view p))) line (b, p) = (b, p)
         \<and> measureRead (req\<lparr>reqLines := pre @ line # post\<rparr>) (b, p)
             = measureRead (req\<lparr>reqLines := pre @ post\<rparr>) (b, p)
         \<and> runMeasure (req\<lparr>reqLines := pre @ line # post\<rparr>) p
             = runMeasure (req\<lparr>reqLines := pre @ post\<rparr>) p"
proof -
  let ?u = "indentUnit (state (view p))"
  have c: "\<And>r. calibrated r ?u line = None"
    using assms by (rule calibrated_not_prefix)
  have 1: "readLine req ?u line (b, p) = (b, p)"
    by (simp add: readLine_eq lineDecorations_def lineReads_def lineLogs_def c withTraces_def)
  have 2: "\<And>b. measureRead (req\<lparr>reqLines := pre @ line # post\<rparr>) (b, p)
             = measureRead (req\<lparr>reqLines := pre @ post\<rparr>) (b, p)"
    by (simp add: measureRead_eq lineDecorations_def lineReads_def lineLogs_def c)
  have 3: "runMeasure (req\<lparr>reqLines := pre @ line # post\<rparr>) p
             = runMeasure (req\<lparr>reqLines := pre @ post\<rparr>) p"
    by (simp add: runMeasure_def 2)
  from 1 2 3 show ?thesis by simp
qed

theorem unit_mismatch_line_skipped_witness:
  "\<not> prefix (indentUnit (state (view samplePlugin))) (lineText tabLine)
   \<and> readLine sampleRequest ''  '' tabLine ([], samplePlugin) = ([], samplePlugin)
   \<and> decorations (runMeasure (sampleRequest\<lparr>reqLines := [tabLine]\<rparr>) samplePlugin) = []"
  using unit_mismatch_line_skipped [of samplePlugin tabLine sampleRequest "[]" "[]" "[]"]
  by (simp add: samplePlugin_def sampleView_def sampleState_def tabLine_def runMeasure_def
      measureRead_def measureWrite_def)

text \<open>
  C7, as stated, fails: when the layout has the line's start at 10 pixels and no
  coordinates for the position after one indent unit, the measured width is -10, not 0.
\<close>

theorem unresolved_width_counterexample:
  "coordsAtPos (view samplePlugin) (lineFrom sampleLine + int (length ''  '')) = None
   \<and> coordsAtPos (view samplePlugin) (lineFrom sampleLine) = Some \<lparr>left = 10\<rparr>
   \<and> consoleLog (view (snd (readLine sampleRequest ''  '' sampleLine ([], samplePlugin))))
       = [- 10]
   \<and> consoleLog (view (runMeasure sampleRequest samplePlugin)) \<noteq> [0]"
  by (simp add: samplePlugin_def sampleView_def sampleLine_def sampleRequest_def readLine_def
      queryCoords_def leftOr0_def Let_def runMeasure_def measureRead_def measureWrite_def
      sampleState_def)

text \<open>
  C7, amended. For a line that reaches the measurement, each coordinate the layout
  cannot resolve counts as 0: the width is 0 when both are unresolved, the negated left
  edge of the line's start when only the position after the indent unit is unresolved,
  and the left edge after the indent unit when only the line's start is unresolved. The
  line is decorated with that width and the loop goes on: the read phase adds, for each
  visible line in turn, the decoration of that line, which depends on the layout at
  that line's two positions only.
\<close>

theorem unresolved_coordinate_width:
  assumes "reqMap req (lineNumber line) = Some e" and "level e \<noteq> 0"
    and "prefix u (lineText line)"
  shows "(coordsAtPos (view p) (lineFrom line + int (length u)) = None
            \<and> coordsAtPos (view p) (lineFrom line) = None
          \<longrightarrow> measuredWidth (coordsAtPos (view p)) u line = 0)
         \<and> (coordsAtPos (view p) (lineFrom line + int (length u)) = None
              \<and> coordsAtPos (view p) (lineFrom line) = Some r
            \<longrightarrow> measuredWidth (coordsAtPos (view p)) u line = - left r)
         \<and> (coordsAtPos (view p) (lineFrom line + int (length u)) = Some r
              \<and> coordsAtPos (view p) (lineFrom line) = None
            \<longrightarrow> measuredWidth (coordsAtPos (view p)) u line = left r)
         \<and> readLine req u line (b, p) =
             (addBackground b line
                (makeBackgroundCSS e
                   (numberToString (measuredWidth (coordsAtPos (view p)) u line) @ ''px'')
                   (reqHideFirstIndent req) (reqThickness req)),
              withTraces (layoutReads (view p) @ [lineFrom line + int (length u), lineFrom line])
                (consoleLog (view p) @ [measuredWidth (coordsAtPos (view p)) u line]) p)
         \<and> fst (measureRead rq (b, p)) =
             b @ concat (map (lineDecorations (coordsAtPos (view p)) rq
                                (indentUnit (state (view p)))) (reqLines rq))
         \<and> (c (lineFrom l' + int (length u)) = c' (lineFrom l' + int (length u))
              \<and> c (lineFrom l') = c' (lineFrom l')
            \<longrightarrow> lineDecorations c rq u l' = lineDecorations c' rq u l')"
proof -
  have cal: "calibrated req u line = Some e"
    using assms by (simp add: calibrated_def)
  have 1: "readLine req u line (b, p) =
             (addBackground b line
                (makeBackgroundCSS e
                   (numberToString (measuredWidth (coordsAtPos (view p)) u line) @ ''px'')
                   (reqHideFirstIndent req) (reqThickness req)),
              withTraces (layoutReads (view p) @ [lineFrom line + int (length u), lineFrom line])
                (consoleLog (view p) @ [measuredWidth (coordsAtPos (view p)) u line]) p)"
    by (simp add: readLine_eq lineDecorations_def lineReads_def lineLogs_def cal
        addBackground_def)
  have 2: "fst (measureRead rq (b, p)) =
             b @ concat (map (lineDecorations (coordsAtPos (view p)) rq
                                (indentUnit (state (view p)))) (reqLines rq))"
    by (simp add: measureRead_eq)
  have 3: "c (lineFrom l' + int (length u)) = c' (lineFrom l' + int (length u))
              \<and> c (lineFrom l') = c' (lineFrom l')
            \<longrightarrow> lineDecorations c rq u l' = lineDecorations c' rq u l'"
    by (simp add: lineDecorations_def measuredWidth_def split: option.split)
  from 1 2 3 show ?thesis
    by (simp add: measuredWidth_def leftOr0_def)
qed

theorem unresolved_coordinate_width_witness:
  "reqMap sampleRequest (lineNumber sampleLine) = Some \<lparr>level = 1, active = None\<rparr>
   \<and> level \<lparr>level = 1, active = None\<rparr> \<noteq> 0
   \<and> prefix ''  '' (lineText sampleLine)
   \<and> coordsAtPos (view (samplePlugin\<lparr>view := blankView\<rparr>))
       (lineFrom sampleLine + int (length ''  '')) = None
   \<and> coordsAtPos (view (samplePlugin\<lparr>view := blankView\<rparr>)) (lineFrom sampleLine) = None
   \<and> measuredWidth (coordsAtPos (view (samplePlugin\<lparr>view := blankView\<rparr>))) ''  '' sampleLine = 0
   \<and> consoleLog (view (snd (readLine sampleRequest ''  '' sampleLine
                              ([], samplePlugin\<lparr>view := blankView\<rparr>)))) = [0]"
proof -
  have h1: "reqMap sampleRequest (lineNumber sampleLine) = Some \<lparr>level = 1, active = None\<rparr>"
    by (simp add: sampleRequest_def sampleLine_def)
  have h2: "level \<lparr>level = 1, active = None\<rparr> \<noteq> 0" by simp
  have h3: "prefix ''  '' (lineText sampleLine)" by (simp add: sampleLine_def)
  show ?thesis
    using unresolved_coordinate_width
      [OF h1 h2 h3, of "samplePlugin\<lparr>view := blankView\<rparr>" "\<lparr>left = 0\<rparr>" "[]"] h1 h2 h3
    by (simp add: blankView_def withTraces_def samplePlugin_def sampleView_def)
qed

text \<open>
  C9, as stated, fails: the write callback also gives the view the focus, which is a
  change of the host's state besides the new decorations.
\<close>

theorem commit_focus_counterexample:
  "\<not> hasFocus (view samplePlugin)
   \<and> hasFocus (view (measureWrite [] samplePlugin))
   \<and> measureWrite [] samplePlugin \<noteq> samplePlugin\<lparr>decorations := []\<rparr>"
  by (simp add: samplePlugin_def sampleView_def measureWrite_def)

text \<open>
  C9, amended. A measure cycle is the read callback followed by the write callback. The
  read callback changes nothing but the traces of its layout reads and its logging:
  decorations, focus and everything else are as before. The write callback makes no
  layout read; it replaces the decorations by the builder's and gives the view the
  focus, and changes nothing else.
\<close>

theorem measure_commit_frames:
  "withTraces (layoutReads (view p)) (consoleLog (view p)) (snd (measureRead req ([], p))) = p
   \<and> decorations (snd (measureRead req ([], p))) = decorations p
   \<and> hasFocus (view (snd (measureRead req ([], p)))) = hasFocus (view p)
   \<and> measureWrite builder p1 =
       p1\<lparr>decorations := builder, view := (view p1)\<lparr>hasFocus := True\<rparr>\<rparr>
   \<and> layoutReads (view (measureWrite builder p1)) = layoutReads (view p1)
   \<and> runMeasure req p =
       measureWrite (fst (measureRead req ([], p))) (snd (measureRead req ([], p)))"
  by (simp add: measureRead_eq withTraces_def measureWrite_def runMeasure_def Let_def
      split: prod.split)

section \<open>Properties of the gradient\<close>

lemma numberToString_1: "numberToString 1 = ''1''"
  by (simp add: numberToString_def digits.simps)

lemma createGradient_print:
  "createGradient prop t (numberToString w @ ''px'') s c
     = printBackground (gradientSpec prop t w s c)"
  by (simp add: createGradient_def printBackground_def gradientSpec_def Let_def
      numberToString_1)

text \<open>
  C8, as stated, fails: with an indent width of 10 pixels and a \<open>ch\<close> of 8 pixels, the
  stripe of index 0 starts 4 pixels from the left edge, not at 0.
\<close>

theorem stripe_anchor_counterexample:
  "stripeLeft 8 (gradientSpec ''--indent-marker-bg-color'' 1 10 0 3) 0 = 4
   \<and> stripeLeft 8 (gradientSpec ''--indent-marker-bg-color'' 1 10 0 3) 0 \<noteq> 0 * 10"
  by (simp add: stripeLeft_def gradientSpec_def)

text \<open>
  C8, amended. The string of \<open>createGradient\<close> is a background whose stripe is
  \<open>thickness\<close> pixels wide and repeats at the indent width; the stripe of index \<open>j\<close> of a
  layer that starts at column \<open>s\<close> lies at \<open>s + j\<close> indent widths plus half a \<open>ch\<close>
  from the left edge; the width of the layer is its columns times the indent width,
  less one pixel.
\<close>

theorem gradient_geometry:
  "createGradient prop t (numberToString w @ ''px'') s c
     = printBackground (gradientSpec prop t w s c)
   \<and> stripeWidth ch (gradientSpec prop t w s c) = of_int t
   \<and> evalLength ch (period (gradientSpec prop t w s c)) = of_int w
   \<and> stripeLeft ch (gradientSpec prop t w s c) j = of_int (s + j) * of_int w + ch / 2
   \<and> spanWidth ch (gradientSpec prop t w s c) = of_int w * of_int c - 1"
  by (simp add: createGradient_print stripeLeft_def stripeWidth_def spanWidth_def
      gradientSpec_def algebra_simps)

end
